theory Spec2Isabelle
  imports Main "HOL-Library.Monad_Syntax"
begin

section \<open>Python text operations\<close>

text \<open>
  A Python \<open>str\<close> is modelled by the \<open>string\<close> of its UTF-8 bytes. Substring tests,
  \<open>startswith\<close> and splitting on an ASCII separator agree on the bytes and on the code
  points. \<open>str_lower\<close> folds the ASCII letters and \<open>str_strip\<close> removes the ASCII white
  space; that is what \<open>str.lower\<close> and \<open>str.strip\<close> do on ASCII text.
\<close>

definition lower_char :: "char \<Rightarrow> char" where
  "lower_char c =
     (case map_of (zip ''ABCDEFGHIJKLMNOPQRSTUVWXYZ'' ''abcdefghijklmnopqrstuvwxyz'') c of
        Some d \<Rightarrow> d
      | None \<Rightarrow> c)"

definition str_lower :: "string \<Rightarrow> string" where
  "str_lower s = map lower_char s"

fun str_startswith :: "string \<Rightarrow> string \<Rightarrow> bool" where
  "str_startswith s [] = True"
| "str_startswith [] (p # ps) = False"
| "str_startswith (c # cs) (p # ps) = (c = p \<and> str_startswith cs ps)"

text \<open>\<open>str_in sub s\<close> is Python's \<open>sub in s\<close>.\<close>

fun str_in :: "string \<Rightarrow> string \<Rightarrow> bool" where
  "str_in sub [] = (sub = [])"
| "str_in sub (c # cs) = (str_startswith (c # cs) sub \<or> str_in sub cs)"

text \<open>
  \<open>s.count(sub)\<close>: the number of non-overlapping occurrences, scanning from the left;
  the empty string occurs \<open>len(s) + 1\<close> times. \<open>count_from\<close> carries the number of
  characters still covered by the last occurrence found.
\<close>

fun count_from :: "string \<Rightarrow> nat \<Rightarrow> string \<Rightarrow> nat" where
  "count_from sub skip [] = 0"
| "count_from sub skip (c # cs) =
     (if 0 < skip then count_from sub (skip - 1) cs
      else if str_startswith (c # cs) sub then Suc (count_from sub (length sub - 1) cs)
      else count_from sub 0 cs)"

definition str_count :: "string \<Rightarrow> string \<Rightarrow> nat" where
  "str_count s sub = (if sub = [] then length s + 1 else count_from sub 0 s)"

definition is_space :: "char \<Rightarrow> bool" where
  "is_space c \<longleftrightarrow>
     c \<in> set [CHR '' '', CHR 0x09, CHR 0x0A, CHR 0x0B, CHR 0x0C, CHR 0x0D,
              CHR 0x1C, CHR 0x1D, CHR 0x1E, CHR 0x1F]"

definition str_strip :: "string \<Rightarrow> string" where
  "str_strip s = rev (dropWhile is_space (rev (dropWhile is_space s)))"

text \<open>\<open>s.split(sep)\<close> for a one-character separator: always at least one segment.\<close>

fun str_split :: "char \<Rightarrow> string \<Rightarrow> string list" where
  "str_split sep [] = [[]]"
| "str_split sep (c # cs) =
     (if c = sep then [] # str_split sep cs
      else (case str_split sep cs of
              [] \<Rightarrow> [[c]]
            | w # ws \<Rightarrow> (c # w) # ws))"

fun str_join :: "string \<Rightarrow> string list \<Rightarrow> string" where
  "str_join sep [] = []"
| "str_join sep [x] = x"
| "str_join sep (x # y # ys) = x @ sep @ str_join sep (y # ys)"

definition digit_char :: "nat \<Rightarrow> char" where
  "digit_char d = ''0123456789'' ! (d mod 10)"

text \<open>\<open>str(n)\<close> for a non-negative integer, and \<open>str(i)\<close> for any integer.\<close>

fun str_nat :: "nat \<Rightarrow> string" where
  "str_nat n = (if n < 10 then [digit_char n] else str_nat (n div 10) @ [digit_char n])"

declare str_nat.simps [simp del]

definition str_int :: "int \<Rightarrow> string" where
  "str_int i = (if i < 0 then CHR ''-'' # str_nat (nat (- i)) else str_nat (nat i))"

text \<open>\<open>xs[:n]\<close>: a negative bound counts from the end.\<close>

definition slice_to :: "'a list \<Rightarrow> int \<Rightarrow> 'a list" where
  "slice_to xs n = (if 0 \<le> n then take (nat n) xs else take (nat (int (length xs) + n)) xs)"


section \<open>The corpus\<close>

text \<open>
  The corpus is the data frame read from the CSV file. A cell holds a string, the
  missing-value marker NaN, or another scalar (a number of a numeric column), kept with
  its \<open>str()\<close> rendering. A row is the series of its cells under the column labels; the
  rows are numbered from 0 by the frame's index.
\<close>

datatype cell = NaN | Str string | Other string

type_synonym row = "(string \<times> cell) list"
type_synonym dataframe = "row list"

text \<open>\<open>row.get(k)\<close> is Python's \<open>None\<close> when the column is missing.\<close>

definition row_get :: "row \<Rightarrow> string \<Rightarrow> cell option" where
  "row_get r k = map_of r k"

text \<open>\<open>row.get(k, d)\<close>: the default stands in for a missing column only.\<close>

definition row_get_default :: "row \<Rightarrow> string \<Rightarrow> cell \<Rightarrow> cell" where
  "row_get_default r k d = (case map_of r k of Some v \<Rightarrow> v | None \<Rightarrow> d)"

text \<open>\<open>row[k]\<close>; \<open>None\<close> is the KeyError of a missing column.\<close>

definition row_item :: "row \<Rightarrow> string \<Rightarrow> cell option" where
  "row_item r k = map_of r k"

fun cell_notna :: "cell \<Rightarrow> bool" where
  "cell_notna NaN = False"
| "cell_notna (Str s) = True"
| "cell_notna (Other s) = True"

text \<open>\<open>pd.notna\<close> on the result of \<open>row.get(k)\<close>.\<close>

fun notna :: "cell option \<Rightarrow> bool" where
  "notna None = False"
| "notna (Some v) = cell_notna v"

fun cell_str :: "cell \<Rightarrow> string" where
  "cell_str NaN = ''nan''"
| "cell_str (Str s) = s"
| "cell_str (Other s) = s"

text \<open>\<open>v.lower()\<close>; \<open>None\<close> is the AttributeError of a value that is not a string.\<close>

fun cell_lower :: "cell \<Rightarrow> string option" where
  "cell_lower (Str s) = Some (str_lower s)"
| "cell_lower NaN = None"
| "cell_lower (Other s) = None"

text \<open>\<open>self.data.iloc[idx]\<close>; \<open>None\<close> is the IndexError.\<close>

definition iloc :: "dataframe \<Rightarrow> nat \<Rightarrow> row option" where
  "iloc data idx = (if idx < length data then Some (data ! idx) else None)"

text \<open>\<open>self.data.head(n).index.tolist()\<close>.\<close>

definition head_index :: "dataframe \<Rightarrow> int \<Rightarrow> nat list" where
  "head_index data n = [0..<length (slice_to data n)]"


section \<open>Retrieval\<close>

record retrieved_case =
  case_id :: string
  case_text :: string
  case_metadata :: "(string \<times> cell) list"

definition format_part :: "string \<Rightarrow> string \<Rightarrow> row \<Rightarrow> string list" where
  "format_part label col r =
     (if notna (row_get r col)
      then (case row_item r col of Some v \<Rightarrow> [label @ '': '' @ cell_str v] | None \<Rightarrow> [])
      else [])"

definition format_case_text :: "row \<Rightarrow> string" where
  "format_case_text r =
     str_join '' | ''
       (format_part ''Disease'' ''Disease'' r
        @ format_part ''Symptoms'' ''Symptoms'' r
        @ format_part ''Constitution'' ''Constitution'' r
        @ format_part ''Herbs'' ''Ayurvedic_Herbs'' r
        @ format_part ''Formulation'' ''Formulation'' r)"

text \<open>
  The relevance score of one row. \<open>None\<close> is an exception raised while the row is
  scored, which the search catches.
\<close>

definition constitution_score :: "string \<Rightarrow> row \<Rightarrow> nat option" where
  "constitution_score dosha_lower r =
     (if notna (row_get r ''Constitution'') then
        do {
          v \<leftarrow> row_item r ''Constitution'';
          c \<leftarrow> cell_lower v;
          Some (if str_in dosha_lower c then 10 else 0)
        }
      else Some 0)"

definition disease_score :: "string \<Rightarrow> row \<Rightarrow> nat option" where
  "disease_score diagnosis_lower r =
     (if notna (row_get r ''Disease'') \<and> diagnosis_lower \<noteq> [] then
        do {
          v \<leftarrow> row_item r ''Disease'';
          d \<leftarrow> cell_lower v;
          Some (if str_in diagnosis_lower d \<or> str_in d diagnosis_lower then 8 else 0)
        }
      else Some 0)"

definition symptoms_score :: "string list \<Rightarrow> row \<Rightarrow> nat" where
  "symptoms_score symptoms_lower r =
     (let symptoms_text = cell_str (row_get_default r ''Symptoms'' (Str []))
      in 3 * length (filter (\<lambda>symptom. str_in symptom (str_lower symptoms_text)) symptoms_lower))"

definition context_score :: "string list \<Rightarrow> row \<Rightarrow> nat" where
  "context_score symptoms_lower r =
     (let herbs_text = cell_str (row_get_default r ''Ayurvedic_Herbs'' (Str []));
          formulation_text = cell_str (row_get_default r ''Formulation'' (Str []))
      in sum_list (map (\<lambda>symptom.
              (if str_in symptom (str_lower herbs_text) then 1 else 0)
            + (if str_in symptom (str_lower formulation_text) then 1 else 0)) symptoms_lower))"

definition score_row :: "string list \<Rightarrow> string \<Rightarrow> string \<Rightarrow> row \<Rightarrow> nat option" where
  "score_row symptoms_lower dosha_lower diagnosis_lower r =
     do {
       s1 \<leftarrow> constitution_score dosha_lower r;
       s2 \<leftarrow> disease_score diagnosis_lower r;
       Some (s1 + s2 + symptoms_score symptoms_lower r + context_score symptoms_lower r)
     }"

text \<open>The scores of all rows, in row order; \<open>None\<close> when scoring some row raises.\<close>

definition row_scores :: "dataframe \<Rightarrow> string list \<Rightarrow> string \<Rightarrow> string \<Rightarrow> nat list option" where
  "row_scores data symptoms constitution_dosha diagnosis =
     those (map (score_row (map str_lower symptoms) (str_lower constitution_dosha)
                   (if diagnosis \<noteq> [] then str_lower diagnosis else [])) data)"

text \<open>
  \<open>scores.sort(reverse=True, key=lambda x: x[0])\<close> on pairs (score, idx): a stable sort
  on the score alone, descending. Python reverses the list, sorts it stably and reverses
  the result, so pairs of equal score keep their order.
\<close>

definition sort_scores :: "(nat \<times> nat) list \<Rightarrow> (nat \<times> nat) list" where
  "sort_scores scores = rev (sort_key fst (rev scores))"

definition structured_metadata :: "row \<Rightarrow> (string \<times> cell) list" where
  "structured_metadata r =
     [(''disease'', row_get_default r ''Disease'' (Str ''N/A'')),
      (''symptoms'', row_get_default r ''Symptoms'' (Str ''N/A'')),
      (''constitution'', row_get_default r ''Constitution'' (Str ''N/A'')),
      (''ayurvedic_herbs'', row_get_default r ''Ayurvedic_Herbs'' (Str ''N/A'')),
      (''formulation'', row_get_default r ''Formulation'' (Str ''N/A'')),
      (''diet_recommendations'', row_get_default r ''Diet_Recommendations'' (Str ''N/A'')),
      (''lifestyle_recommendations'',
         row_get_default r ''Lifestyle_Recommendations'' (Str ''N/A''))]"

definition structured_result :: "dataframe \<Rightarrow> nat \<Rightarrow> retrieved_case option" where
  "structured_result data idx =
     do {
       r \<leftarrow> iloc data idx;
       Some \<lparr>case_id = str_nat idx, case_text = format_case_text r,
             case_metadata = structured_metadata r\<rparr>
     }"

definition top_indices :: "(nat \<times> nat) list \<Rightarrow> int \<Rightarrow> nat list" where
  "top_indices scores n_results =
     map snd (filter (\<lambda>(score, idx). 0 < score) (slice_to (sort_scores scores) n_results))"

text \<open>
  \<open>search_by_symptoms_and_dosha\<close>. Any exception inside the \<open>try\<close> block gives the
  empty list.
\<close>

definition search_by_symptoms_and_dosha ::
    "dataframe \<Rightarrow> string list \<Rightarrow> string \<Rightarrow> string \<Rightarrow> int \<Rightarrow> retrieved_case list" where
  "search_by_symptoms_and_dosha data symptoms constitution_dosha diagnosis n_results =
     (case row_scores data symptoms constitution_dosha diagnosis of
        None \<Rightarrow> []
      | Some ss \<Rightarrow>
          (let scores = zip ss [0..<length ss];
               top = top_indices scores n_results;
               chosen = (if top = [] then head_index data n_results else top)
           in case those (map (structured_result data) chosen) of
                None \<Rightarrow> []
              | Some results \<Rightarrow> results))"

text \<open>\<open>search_by_text\<close>: every column of the row is searched.\<close>

definition text_cell_score :: "string \<Rightarrow> cell \<Rightarrow> nat" where
  "text_cell_score query_lower v =
     (if cell_notna v then
        (let t = str_lower (cell_str v)
         in if str_in query_lower t then str_count t query_lower else 0)
      else 0)"

definition text_score :: "string \<Rightarrow> row \<Rightarrow> nat" where
  "text_score query_lower r = sum_list (map (\<lambda>(col, v). text_cell_score query_lower v) r)"

definition text_metadata :: "row \<Rightarrow> (string \<times> cell) list" where
  "text_metadata r =
     [(''disease'', row_get_default r ''Disease'' (Str ''N/A'')),
      (''symptoms'', row_get_default r ''Symptoms'' (Str ''N/A'')),
      (''constitution'', row_get_default r ''Constitution'' (Str ''N/A'')),
      (''ayurvedic_herbs'', row_get_default r ''Ayurvedic_Herbs'' (Str ''N/A'')),
      (''formulation'', row_get_default r ''Formulation'' (Str ''N/A'')),
      (''diet_recommendations'', row_get_default r ''Diet_Recommendations'' (Str ''N/A''))]"

definition text_result :: "dataframe \<Rightarrow> nat \<Rightarrow> retrieved_case option" where
  "text_result data idx =
     do {
       r \<leftarrow> iloc data idx;
       Some \<lparr>case_id = str_nat idx, case_text = format_case_text r,
             case_metadata = text_metadata r\<rparr>
     }"

definition text_scores :: "dataframe \<Rightarrow> string \<Rightarrow> (nat \<times> nat) list" where
  "text_scores data query =
     filter (\<lambda>(score, idx). 0 < score)
       (zip (map (text_score (str_lower query)) data) [0..<length data])"

definition search_by_text :: "dataframe \<Rightarrow> string \<Rightarrow> int \<Rightarrow> retrieved_case list" where
  "search_by_text data query n_results =
     (let chosen = map snd (slice_to (sort_scores (text_scores data query)) n_results)
      in case those (map (text_result data) chosen) of
           None \<Rightarrow> []
         | Some results \<Rightarrow> results)"


section \<open>Prescription generation\<close>

record PatientInfo =
  name :: string
  age :: int
  gender :: string
  constitution_dosha :: string
  symptoms :: "string list"
  doctor_diagnosis :: string

subsection \<open>The clock\<close>

text \<open>
  The formatters read the system clock with \<open>datetime.now()\<close>. The reading is a
  parameter \<open>now\<close> of their models; it is no argument of the Python functions.
\<close>

record datetime =
  year :: nat
  month :: nat
  day :: nat
  hour :: nat
  minute :: nat
  second :: nat
  microsecond :: nat

definition zfill :: "nat \<Rightarrow> string \<Rightarrow> string" where
  "zfill w s = replicate (w - length s) (CHR ''0'') @ s"

definition month_name :: "nat \<Rightarrow> string" where
  "month_name m =
     (if 1 \<le> m \<and> m \<le> 12
      then [''January'', ''February'', ''March'', ''April'', ''May'', ''June'', ''July'',
            ''August'', ''September'', ''October'', ''November'', ''December''] ! (m - 1)
      else [])"

text \<open>\<open>now.strftime("%B %d, %Y")\<close>.\<close>

definition strftime_date :: "datetime \<Rightarrow> string" where
  "strftime_date t =
     month_name (month t) @ '' '' @ zfill 2 (str_nat (day t)) @ '', '' @ str_nat (year t)"

text \<open>\<open>now.isoformat()\<close>: the microseconds are left out when they are zero.\<close>

definition isoformat :: "datetime \<Rightarrow> string" where
  "isoformat t =
     zfill 4 (str_nat (year t)) @ ''-'' @ zfill 2 (str_nat (month t)) @ ''-''
     @ zfill 2 (str_nat (day t)) @ ''T'' @ zfill 2 (str_nat (hour t)) @ '':''
     @ zfill 2 (str_nat (minute t)) @ '':'' @ zfill 2 (str_nat (second t))
     @ (if microsecond t = 0 then [] else ''.'' @ zfill 6 (str_nat (microsecond t)))"

subsection \<open>Text templates\<close>

definition newline :: char where
  "newline = CHR 0x0A"

text \<open>The bullet glyph U+2022 and the box rule U+2550, in UTF-8.\<close>

definition bullet :: string where
  "bullet = [CHR 0xE2, CHR 0x80, CHR 0xA2]"

definition rule80 :: string where
  "rule80 = concat (replicate 80 [CHR 0xE2, CHR 0x95, CHR 0x90])"

text \<open>A triple-quoted template: every line of it ends with a line break.\<close>

definition template :: "string list \<Rightarrow> string" where
  "template ls = concat (map (\<lambda>l. l @ [newline]) ls)"

subsection \<open>The display formatter\<close>

definition display_header :: "PatientInfo \<Rightarrow> datetime \<Rightarrow> string" where
  "display_header patient_info now =
     template
       [[],
        rule80,
        ''                    AYURVEDIC PRESCRIPTION'',
        rule80,
        ''Patient: '' @ name patient_info @ '' | Age: '' @ str_int (age patient_info)
          @ '' | Gender: '' @ gender patient_info,
        ''Constitution: '' @ constitution_dosha patient_info,
        ''Diagnosis: '' @ doctor_diagnosis patient_info,
        ''Symptoms: '' @ str_join '', '' (symptoms patient_info),
        ''Date: '' @ strftime_date now,
        rule80,
        []]"

definition display_footer :: string where
  "display_footer =
     template
       [[],
        [],
        rule80,
        ''                        IMPORTANT NOTES'',
        rule80,
        bullet @ '' Follow the prescription consistently for optimal results'',
        bullet @ '' Maintain regular meal times and sleep schedule  '',
        bullet @ '' Stay hydrated with warm water throughout the day'',
        bullet @ '' Consult an Ayurvedic physician if symptoms persist'',
        bullet @ '' This prescription is based on traditional Ayurvedic principles'',
        [],
        ''Generated by AyurGenixAI - Your Ayurvedic Health Companion'',
        rule80]"

definition format_display_output :: "string \<Rightarrow> PatientInfo \<Rightarrow> datetime \<Rightarrow> string" where
  "format_display_output response_text patient_info now =
     display_header patient_info now @ response_text @ display_footer"

subsection \<open>The response parser and the structured document\<close>

datatype section_name = Medicines | Diet | Lifestyle

record parse_state =
  current_section :: "section_name option"
  medicines :: "string list"
  diet_recommendations :: "(string \<times> string) list"
  lifestyle_recommendations :: "string list"

text \<open>\<open>d[k] = v\<close> on a dictionary kept as an association list in insertion order.\<close>

fun dict_set :: "string \<Rightarrow> string \<Rightarrow> (string \<times> string) list \<Rightarrow> (string \<times> string) list" where
  "dict_set k v [] = [(k, v)]"
| "dict_set k v ((k', v') # kvs) =
     (if k = k' then (k, v) # kvs else (k', v') # dict_set k v kvs)"

definition diet_row :: "string \<Rightarrow> string \<Rightarrow> parse_state \<Rightarrow> parse_state" where
  "diet_row key line st =
     (let parts = str_split (CHR ''|'') line
      in if 3 \<le> length parts
         then st\<lparr>diet_recommendations :=
                   dict_set key (str_strip (parts ! 2)) (diet_recommendations st)\<rparr>
         else st)"

text \<open>
  One turn of the loop over the lines. \<open>line[1:]\<close> is taken only of a line that
  starts with the bullet, so it drops the three bytes of that one character.
\<close>

definition parse_line :: "parse_state \<Rightarrow> string \<Rightarrow> parse_state" where
  "parse_line st raw =
     (let line = str_strip raw
      in if str_in ''1. Ayurvedic Medicines:'' line then st\<lparr>current_section := Some Medicines\<rparr>
         else if str_in ''2. Diet Recommendation:'' line then st\<lparr>current_section := Some Diet\<rparr>
         else if str_in ''3. Lifestyle Recommendations:'' line
           then st\<lparr>current_section := Some Lifestyle\<rparr>
         else if str_startswith line bullet \<and> current_section st = Some Medicines
           then st\<lparr>medicines := medicines st @ [str_strip (drop (length bullet) line)]\<rparr>
         else if str_startswith line bullet \<and> current_section st = Some Lifestyle
           then st\<lparr>lifestyle_recommendations :=
                     lifestyle_recommendations st @ [str_strip (drop (length bullet) line)]\<rparr>
         else if str_in ''|'' line \<and> current_section st = Some Diet
           then (if str_in ''Breakfast'' line then diet_row ''breakfast'' line st
                 else if str_in ''Lunch'' line then diet_row ''lunch'' line st
                 else if str_in ''Dinner'' line then diet_row ''dinner'' line st
                 else if str_in ''Drinks'' line then diet_row ''drinks'' line st
                 else st)
         else st)"

definition initial_state :: parse_state where
  "initial_state =
     \<lparr>current_section = None, medicines = [], diet_recommendations = [],
      lifestyle_recommendations = []\<rparr>"

definition parse_response :: "string \<Rightarrow> parse_state" where
  "parse_response response_text = foldl parse_line initial_state (str_split newline response_text)"

record patient_json =
  json_name :: string
  json_age :: int
  json_gender :: string
  json_constitution :: string
  json_diagnosis :: string
  json_symptoms :: "string list"

text \<open>
  The prescription group of the document. \<open>RawText\<close> is the shape built by the
  \<open>except\<close> branch of \<open>_create_json_output\<close>; no statement of its \<open>try\<close> block
  raises on a string, so the model never builds it.
\<close>

datatype prescription_group =
    Structured "string list" "(string \<times> string) list" "string list"
  | RawText string

record document_metadata =
  generated_date :: string
  generated_by :: string
  format_version :: string
  parsing_error :: "string option"

record json_document =
  patient_info :: patient_json
  prescription :: prescription_group
  metadata :: document_metadata

definition patient_to_json :: "PatientInfo \<Rightarrow> patient_json" where
  "patient_to_json p =
     \<lparr>json_name = name p, json_age = age p, json_gender = gender p,
      json_constitution = constitution_dosha p, json_diagnosis = doctor_diagnosis p,
      json_symptoms = symptoms p\<rparr>"

definition create_json_output :: "string \<Rightarrow> PatientInfo \<Rightarrow> datetime \<Rightarrow> json_document" where
  "create_json_output response_text p now =
     (let st = parse_response response_text
      in \<lparr>patient_info = patient_to_json p,
          prescription =
            Structured (medicines st) (diet_recommendations st) (lifestyle_recommendations st),
          metadata =
            \<lparr>generated_date = isoformat now, generated_by = ''AyurGenixAI'',
             format_version = ''1.0'', parsing_error = None\<rparr>\<rparr>)"

subsection \<open>The orchestrator\<close>

definition fallback_text :: "PatientInfo \<Rightarrow> string" where
  "fallback_text p =
     template
       [[],
        ''Prescription for '' @ name p @ '' ('' @ str_int (age p) @ '', '' @ gender p
          @ '', '' @ constitution_dosha p @ '' constitution):'',
        [],
        ''1. Ayurvedic Medicines:'',
        ''   '' @ bullet @ '' Triphala Churna: 1 tsp with warm water at bedtime'',
        ''   '' @ bullet @ '' Ashwagandha powder: 1/2 tsp with warm milk twice daily'',
        ''   '' @ bullet @ '' Amla juice: 20 ml with water in the morning'',
        [],
        ''2. Diet Recommendation:'',
        ''   +-----------+----------------------------------------+'',
        ''   | Meal      | Recommendation                         |'',
        ''   +-----------+----------------------------------------+'',
        ''   | Breakfast | Warm oats with seasonal fruits         |'',
        ''   | Lunch     | Rice with dal and cooked vegetables    |'',
        ''   | Dinner    | Light khichdi or vegetable soup        |'',
        ''   | Drinks    | Warm water, herbal teas                |'',
        ''   +-----------+----------------------------------------+'',
        [],
        ''3. Lifestyle Recommendations:'',
        ''   '' @ bullet @ '' Practice Anulom-Vilom pranayama daily (10 minutes)'',
        ''   '' @ bullet @ '' Morning walk for 20-30 minutes'',
        ''   '' @ bullet @ '' Sleep by 10 PM, wake by 6 AM'',
        ''   '' @ bullet @ '' Avoid processed and cold foods'',
        ''   '' @ bullet @ '' Practice meditation for stress relief (10 minutes daily)'']"

record prescription_result =
  success :: bool
  display_format :: string
  json_format :: json_document
  raw_response :: "string option"
  error :: "string option"
  similar_cases_count :: nat

text \<open>
  \<open>now1\<close> and \<open>now2\<close> are the clock readings of the display formatter and of the
  document formatter.
\<close>

definition create_fallback_response :: "PatientInfo \<Rightarrow> datetime \<Rightarrow> datetime \<Rightarrow> prescription_result" where
  "create_fallback_response p now1 now2 =
     \<lparr>success = False,
      display_format = format_display_output (fallback_text p) p now1,
      json_format = create_json_output (fallback_text p) p now2,
      raw_response = None,
      error = Some ''Using fallback prescription'',
      similar_cases_count = 0\<rparr>"

text \<open>
  What the external generator does with the prompt: the call or the reading of
  \<open>response.text\<close> raises, or there is a response whose text may be \<open>None\<close>.
\<close>

datatype generation = Raised | Response "string option"

definition generate_prescription ::
    "generation \<Rightarrow> PatientInfo \<Rightarrow> retrieved_case list \<Rightarrow> datetime \<Rightarrow> datetime \<Rightarrow> prescription_result" where
  "generate_prescription outcome p similar_cases now1 now2 =
     (case outcome of
        Raised \<Rightarrow> create_fallback_response p now1 now2
      | Response None \<Rightarrow> create_fallback_response p now1 now2
      | Response (Some response_text) \<Rightarrow>
          (if response_text \<noteq> [] then
             \<lparr>success = True,
              display_format = format_display_output response_text p now1,
              json_format = create_json_output response_text p now2,
              raw_response = Some response_text,
              error = None,
              similar_cases_count = length similar_cases\<rparr>
           else create_fallback_response p now1 now2))"


section \<open>Auxiliary definitions\<close>

text \<open>
  The order in which the search ranks two rows: the higher score first, rows of equal
  score by their index. \<open>pair_before\<close> is the same order on the (score, idx) pairs, and
  \<open>ranked_before\<close> reads the scores from the list of all row scores.
\<close>

definition pair_before :: "nat \<times> nat \<Rightarrow> nat \<times> nat \<Rightarrow> bool" where
  "pair_before a b \<longleftrightarrow> fst b < fst a \<or> (fst a = fst b \<and> snd a < snd b)"

definition ranked_before :: "nat list \<Rightarrow> nat \<Rightarrow> nat \<Rightarrow> bool" where
  "ranked_before ss i j \<longleftrightarrow> ss ! j < ss ! i \<or> (ss ! i = ss ! j \<and> i < j)"

definition chosen_indices :: "dataframe \<Rightarrow> nat list \<Rightarrow> int \<Rightarrow> nat list" where
  "chosen_indices data ss n =
     (if top_indices (zip ss [0..<length ss]) n = [] then head_index data n
      else top_indices (zip ss [0..<length ss]) n)"

definition reflux_record :: row where
  "reflux_record =
     [(''Disease'', Str ''Acid Reflux''), (''Symptoms'', Str ''heartburn, bloating''),
      (''Constitution'', Str ''Pitta'')]"

definition reflux_corpus :: dataframe where
  "reflux_corpus = [reflux_record]"

definition reflux_case :: retrieved_case where
  "reflux_case =
     \<lparr>case_id = ''0'',
      case_text = ''Disease: Acid Reflux | Symptoms: heartburn, bloating | Constitution: Pitta'',
      case_metadata =
        [(''disease'', Str ''Acid Reflux''), (''symptoms'', Str ''heartburn, bloating''),
         (''constitution'', Str ''Pitta''), (''ayurvedic_herbs'', Str ''N/A''),
         (''formulation'', Str ''N/A''), (''diet_recommendations'', Str ''N/A''),
         (''lifestyle_recommendations'', Str ''N/A'')]\<rparr>"

definition cough_corpus :: dataframe where
  "cough_corpus = [[(''Disease'', NaN), (''Symptoms'', Str ''cough'')]]"

definition mixed_corpus :: dataframe where
  "mixed_corpus = [[(''Disease'', Str ''Cold'')], reflux_record, reflux_record]"

definition blank_corpus :: dataframe where
  "blank_corpus = [[(''Disease'', Str ''ab'')], [(''Disease'', NaN)]]"



section \<open>Properties of the retrieval engine\<close>

lemma insort_key_before:
  assumes "sorted_wrt (\<lambda>a b. pair_before b a) ys" and "\<forall>y\<in>set ys. snd y < snd x"
  shows "sorted_wrt (\<lambda>a b. pair_before b a) (insort_key fst x ys)"
  using assms
proof (induction ys)
  case Nil
  then show ?case by simp
next
  case (Cons y ys)
  show ?case
  proof (cases "fst x \<le> fst y")
    case True
    then have "insort_key fst x (y # ys) = x # y # ys" by simp
    moreover have "\<forall>z\<in>set (y # ys). pair_before z x"
    proof
      fix z assume z: "z \<in> set (y # ys)"
      have "fst y \<le> fst z \<or> z = y" using Cons.prems(1) z by (auto simp: pair_before_def)
      then have "fst x \<le> fst z" using True by auto
      moreover have "snd z < snd x" using Cons.prems(2) z by blast
      ultimately show "pair_before z x" by (auto simp: pair_before_def)
    qed
    ultimately show ?thesis using Cons.prems(1) by simp
  next
    case False
    then have eq: "insort_key fst x (y # ys) = y # insort_key fst x ys" by simp
    have "sorted_wrt (\<lambda>a b. pair_before b a) (insort_key fst x ys)"
      using Cons by simp
    moreover have "\<forall>z\<in>set (insort_key fst x ys). pair_before z y"
      using Cons.prems(1) False by (auto simp: set_insort_key pair_before_def)
    ultimately show ?thesis using eq by simp
  qed
qed

lemma sort_key_before:
  "sorted_wrt (\<lambda>a b. snd b < snd a) zs \<Longrightarrow> sorted_wrt (\<lambda>a b. pair_before b a) (sort_key fst zs)"
proof (induction zs)
  case Nil
  then show ?case by simp
next
  case (Cons z zs)
  then have "sorted_wrt (\<lambda>a b. pair_before b a) (sort_key fst zs)" by simp
  moreover from Cons.prems have "\<forall>y\<in>set (sort_key fst zs). snd y < snd z" by simp
  ultimately show ?case by (simp add: insort_key_before)
qed

lemma sort_scores_sorted:
  assumes "sorted_wrt (\<lambda>a b. snd a < snd b) xs"
  shows "sorted_wrt pair_before (sort_scores xs)"
proof -
  from assms have "sorted_wrt (\<lambda>a b. snd b < snd a) (rev xs)"
    by (simp add: sorted_wrt_rev)
  then have "sorted_wrt (\<lambda>a b. pair_before b a) (sort_key fst (rev xs))"
    by (rule sort_key_before)
  then show ?thesis by (simp add: sort_scores_def sorted_wrt_rev)
qed

lemma set_sort_scores: "set (sort_scores xs) = set xs"
  by (simp add: sort_scores_def)

lemma length_sort_scores: "length (sort_scores xs) = length xs"
  by (simp add: sort_scores_def)

lemma zip_upt_snd_sorted: "sorted_wrt (\<lambda>a b. snd a < snd b) (zip ss [0..<length ss])"
proof -
  have "sorted_wrt (<) (map snd (zip ss [0..<length ss]))" by simp
  then show ?thesis by (simp only: sorted_wrt_map)
qed

lemma zip_upt_member: "(s, i) \<in> set (zip ss [0..<length ss]) \<Longrightarrow> i < length ss \<and> s = ss ! i"
  by (auto simp: set_zip)

lemma sorted_zip_scores: "sorted_wrt pair_before (sort_scores (zip ss [0..<length ss]))"
  by (rule sort_scores_sorted) (rule zip_upt_snd_sorted)

lemma set_slice_to: "set (slice_to xs n) \<subseteq> set xs"
  by (auto simp: slice_to_def dest: in_set_takeD)

lemma sorted_wrt_slice_to: "sorted_wrt P xs \<Longrightarrow> sorted_wrt P (slice_to xs n)"
  by (simp add: slice_to_def sorted_wrt_take)

lemma length_slice_to_nonneg: "0 \<le> n \<Longrightarrow> length (slice_to xs n) = min (nat n) (length xs)"
  by (simp add: slice_to_def min_def)

lemma length_slice_to_same: "length xs = length ys \<Longrightarrow> length (slice_to xs n) = length (slice_to ys n)"
  by (simp add: slice_to_def)

lemma those_map_Some: "(\<And>x. x \<in> set xs \<Longrightarrow> f x = Some (g x)) \<Longrightarrow> those (map f xs) = Some (map g xs)"
  by (induction xs) auto

lemma those_length: "those xs = Some ys \<Longrightarrow> length ys = length xs"
  by (induction xs arbitrary: ys) (auto split: option.splits)

lemma those_map_eq: "those xs = Some ys \<Longrightarrow> xs = map Some ys"
  by (induction xs arbitrary: ys) (auto split: option.splits)

lemma row_scores_length: "row_scores data sy d dg = Some ss \<Longrightarrow> length ss = length data"
  by (auto simp: row_scores_def dest: those_length)

lemma slice_member: "a \<in> set (slice_to xs n) \<Longrightarrow> a \<in> set xs"
  by (auto simp: slice_to_def dest: in_set_takeD split: if_splits)

lemma slice_member_zip:
  "a \<in> set (slice_to (sort_scores (zip ss [0..<length ss])) n) \<Longrightarrow> a \<in> set (zip ss [0..<length ss])"
proof -
  assume "a \<in> set (slice_to (sort_scores (zip ss [0..<length ss])) n)"
  then have "a \<in> set (sort_scores (zip ss [0..<length ss]))"
    by (rule slice_member)
  then show ?thesis by (simp only: set_sort_scores)
qed

lemma top_indices_sorted:
  "sorted_wrt (ranked_before ss) (top_indices (zip ss [0..<length ss]) n)"
proof -
  let ?S = "slice_to (sort_scores (zip ss [0..<length ss])) n"
  let ?xs = "filter (\<lambda>(score, idx). 0 < score) ?S"
  have "sorted_wrt pair_before ?S"
    by (rule sorted_wrt_slice_to) (rule sorted_zip_scores)
  then have s: "sorted_wrt pair_before ?xs"
    by (rule sorted_wrt_filter)
  have m: "\<And>a. a \<in> set ?xs \<Longrightarrow> fst a = ss ! snd a"
  proof -
    fix a assume "a \<in> set ?xs"
    then have "a \<in> set ?S" by simp
    then have "a \<in> set (zip ss [0..<length ss])" by (rule slice_member_zip)
    then have "(fst a, snd a) \<in> set (zip ss [0..<length ss])" by simp
    then show "fst a = ss ! snd a" by (rule zip_upt_member [THEN conjunct2])
  qed
  have "sorted_wrt (\<lambda>a b. ranked_before ss (snd a) (snd b)) ?xs"
  proof (rule sorted_wrt_mono_rel [OF _ s])
    fix a b assume a: "a \<in> set ?xs" and b: "b \<in> set ?xs" and ab: "pair_before a b"
    from m [OF a] m [OF b] ab show "ranked_before ss (snd a) (snd b)"
      by (simp add: pair_before_def ranked_before_def)
  qed
  then show ?thesis by (simp only: top_indices_def sorted_wrt_map)
qed

lemma top_indices_member:
  assumes "i \<in> set (top_indices (zip ss [0..<length ss]) n)"
  shows "i < length ss \<and> 0 < ss ! i"
proof -
  from assms obtain a where a: "a \<in> set (slice_to (sort_scores (zip ss [0..<length ss])) n)"
      and pos: "0 < fst a" and i: "i = snd a"
    unfolding top_indices_def by (auto simp: case_prod_beta)
  from a have "a \<in> set (zip ss [0..<length ss])" by (rule slice_member_zip)
  then have "(fst a, snd a) \<in> set (zip ss [0..<length ss])" by simp
  then have "snd a < length ss \<and> fst a = ss ! snd a" by (rule zip_upt_member)
  with pos i show ?thesis by simp
qed

lemma top_indices_length: "0 \<le> n \<Longrightarrow> length (top_indices xs n) \<le> nat n"
proof -
  assume "0 \<le> n"
  have "length (top_indices xs n) \<le> length (slice_to (sort_scores xs) n)"
    unfolding top_indices_def by simp
  also have "\<dots> \<le> nat n" using \<open>0 \<le> n\<close> by (simp add: length_slice_to_nonneg)
  finally show ?thesis .
qed

lemma slice_to_Cons: "slice_to xs n = a # as \<Longrightarrow> \<exists>bs. xs = a # bs"
  by (cases xs) (auto simp: slice_to_def take_Cons' split: if_splits)

lemma top_indices_Nil:
  assumes "top_indices (zip ss [0..<length ss]) n = []"
  shows "slice_to (sort_scores (zip ss [0..<length ss])) n = [] \<or> (\<forall>s\<in>set ss. s = 0)"
proof (cases "slice_to (sort_scores (zip ss [0..<length ss])) n")
  case Nil
  then show ?thesis by simp
next
  case (Cons a as)
  define Z where "Z = zip ss [0..<length ss]"
  define S where "S = sort_scores Z"
  have sl: "slice_to S n = a # as" using Cons by (simp only: S_def Z_def)
  have flt: "filter (\<lambda>p. 0 < fst p) (slice_to S n) = []"
    using assms by (simp add: top_indices_def S_def Z_def case_prod_unfold)
  have "a \<in> set (slice_to S n)" using sl by simp
  with flt have a0: "fst a = 0" by (simp add: filter_empty_conv)
  from slice_to_Cons [OF sl] obtain bs where Sab: "S = a # bs" by (rule exE)
  have "sorted_wrt pair_before S" unfolding S_def Z_def by (rule sorted_zip_scores)
  then have "\<forall>b\<in>set bs. pair_before a b" by (simp add: Sab)
  then have "\<forall>b\<in>set bs. fst b = 0" using a0 by (simp add: pair_before_def)
  then have "\<forall>b\<in>set S. fst b = 0" using a0 by (simp add: Sab)
  then have z: "\<forall>b\<in>set Z. fst b = 0" by (simp add: S_def set_sort_scores)
  have m: "map fst Z = ss" by (simp add: Z_def)
  show ?thesis
  proof (rule disjI2, rule ballI)
    fix s assume "s \<in> set ss"
    then have "s \<in> set (map fst Z)" by (simp only: m)
    then obtain b where "b \<in> set Z" "s = fst b" by auto
    with z show "s = 0" by simp
  qed
qed

lemma structured_result_Some: "i < length data \<Longrightarrow> structured_result data i \<noteq> None"
  by (simp add: structured_result_def iloc_def)

lemma text_result_Some: "i < length data \<Longrightarrow> text_result data i \<noteq> None"
  by (simp add: text_result_def iloc_def)

lemma those_all_Some:
  "\<forall>x\<in>set xs. f x \<noteq> None \<Longrightarrow>
     \<exists>rs. those (map f xs) = Some rs \<and> map f xs = map Some rs"
  by (induction xs) auto

lemma head_index_bound: "i \<in> set (head_index data n) \<Longrightarrow> i < length data"
  by (auto simp: head_index_def slice_to_def split: if_splits)

lemma head_index_nonneg: "0 \<le> n \<Longrightarrow> head_index data n = [0..<min (nat n) (length data)]"
  by (simp add: head_index_def length_slice_to_nonneg)

lemma chosen_indices_bound:
  assumes "length (ss::nat list) = length (data::dataframe)" and "i \<in> set (chosen_indices data ss n)"
  shows "i < length data"
proof (cases "top_indices (zip ss [0..<length ss]) n = []")
  case True
  with assms(2) show ?thesis by (simp add: chosen_indices_def head_index_bound)
next
  case False
  with assms(2) have "i \<in> set (top_indices (zip ss [0..<length ss]) n)"
    by (simp add: chosen_indices_def)
  then have "i < length ss" by (rule top_indices_member [THEN conjunct1])
  with assms(1) show ?thesis by simp
qed

lemma search_structured_unfold:
  assumes "row_scores data sy d dg = Some ss"
  shows "map (structured_result data) (chosen_indices data ss n)
           = map Some (search_by_symptoms_and_dosha data sy d dg n)"
proof -
  have len: "length ss = length data" using assms by (rule row_scores_length)
  have "\<forall>i\<in>set (chosen_indices data ss n). structured_result data i \<noteq> None"
    using chosen_indices_bound [OF len] structured_result_Some by blast
  then obtain rs where rs: "those (map (structured_result data) (chosen_indices data ss n)) = Some rs"
      and eq: "map (structured_result data) (chosen_indices data ss n) = map Some rs"
    using those_all_Some by blast
  have "search_by_symptoms_and_dosha data sy d dg n = rs"
    using assms rs by (simp add: search_by_symptoms_and_dosha_def chosen_indices_def Let_def)
  with eq show ?thesis by simp
qed

lemma search_structured_raises:
  "row_scores data sy d dg = None \<Longrightarrow> search_by_symptoms_and_dosha data sy d dg n = []"
  by (simp add: search_by_symptoms_and_dosha_def)

lemma chosen_indices_length:
  assumes "0 \<le> n"
  shows "length (chosen_indices data ss n) \<le> nat n"
proof (cases "top_indices (zip ss [0..<length ss]) n = []")
  case True
  then have "chosen_indices data ss n = head_index data n" by (simp add: chosen_indices_def)
  then show ?thesis using assms by (simp add: head_index_nonneg)
next
  case False
  then have "chosen_indices data ss n = top_indices (zip ss [0..<length ss]) n"
    by (simp add: chosen_indices_def)
  then show ?thesis using top_indices_length [OF assms] by simp
qed

lemma head_index_Nil:
  assumes "length (ss::nat list) = length (data::dataframe)"
    and "slice_to (sort_scores (zip ss [0..<length ss])) n = []"
  shows "head_index data n = []"
proof -
  have "length (sort_scores (zip ss [0..<length ss])) = length data"
    using assms(1) by (simp add: length_sort_scores)
  then have "length (slice_to (sort_scores (zip ss [0..<length ss])) n) = length (slice_to data n)"
    by (rule length_slice_to_same)
  with assms(2) have "length (slice_to data n) = 0" by simp
  then show ?thesis by (simp add: head_index_def)
qed

lemma chosen_indices_sorted:
  assumes "length (ss::nat list) = length (data::dataframe)"
  shows "sorted_wrt (ranked_before ss) (chosen_indices data ss n)"
proof (cases "top_indices (zip ss [0..<length ss]) n = []")
  case False
  then have "chosen_indices data ss n = top_indices (zip ss [0..<length ss]) n"
    by (simp add: chosen_indices_def)
  then show ?thesis using top_indices_sorted [of ss n] by simp
next
  case True
  then have c: "chosen_indices data ss n = head_index data n" by (simp add: chosen_indices_def)
  from top_indices_Nil [OF True] show ?thesis
  proof
    assume "slice_to (sort_scores (zip ss [0..<length ss])) n = []"
    with assms have "head_index data n = []" by (rule head_index_Nil)
    with c show ?thesis by simp
  next
    assume z: "\<forall>s\<in>set ss. s = 0"
    have "sorted_wrt (ranked_before ss) [0..<length (slice_to data n)]"
    proof (subst sorted_wrt_iff_nth_less, intro allI impI)
      fix i j assume ij: "i < j" and j: "j < length [0..<length (slice_to data n)]"
      from j have "j \<in> set (head_index data n)" by (simp add: head_index_def)
      then have "j < length data" by (rule head_index_bound)
      with assms have jl: "j < length ss" by simp
      with ij have il: "i < length ss" by simp
      from il jl z have "ss ! i = 0" "ss ! j = 0" by simp_all
      with ij j show "ranked_before ss ([0..<length (slice_to data n)] ! i) ([0..<length (slice_to data n)] ! j)"
        by (simp add: ranked_before_def)
    qed
    with c show ?thesis by (simp add: head_index_def)
  qed
qed

lemma chosen_indices_positive:
  assumes "length (ss::nat list) = length (data::dataframe)"
    and "\<exists>s\<in>set ss. 0 < s"
    and "i \<in> set (chosen_indices data ss n)"
  shows "i < length ss \<and> 0 < ss ! i"
proof (cases "top_indices (zip ss [0..<length ss]) n = []")
  case False
  with assms(3) have "i \<in> set (top_indices (zip ss [0..<length ss]) n)"
    by (simp add: chosen_indices_def)
  then show ?thesis by (rule top_indices_member)
next
  case True
  then have c: "chosen_indices data ss n = head_index data n" by (simp add: chosen_indices_def)
  from top_indices_Nil [OF True] assms(2)
  have "slice_to (sort_scores (zip ss [0..<length ss])) n = []" by auto
  with assms(1) have "head_index data n = []" by (rule head_index_Nil)
  with c assms(3) show ?thesis by simp
qed

lemma chosen_indices_all_zero:
  assumes "\<forall>s\<in>set ss. s = 0"
  shows "chosen_indices data ss n = head_index data n"
proof -
  have "top_indices (zip ss [0..<length ss]) n = []"
  proof (cases "top_indices (zip ss [0..<length ss]) n")
    case Nil
    then show ?thesis .
  next
    case (Cons i js)
    then have "i \<in> set (top_indices (zip ss [0..<length ss]) n)" by simp
    then have "i < length ss \<and> 0 < ss ! i" by (rule top_indices_member)
    then have "ss ! i \<in> set ss" "0 < ss ! i" by simp_all
    with assms show ?thesis by auto
  qed
  then show ?thesis by (simp add: chosen_indices_def)
qed

text \<open>
  Claim C2, for a number of results that is not negative. The search returns at most
  \<open>n_results\<close> results. Its results are the rows at a list of indices, in that order,
  and this list is ranked: a row of higher score comes first, and rows of equal score come
  by ascending index. The search is a function of the corpus and the query, so that two
  calls on the same inputs return the same list. The ranking holds for every
  \<open>n_results\<close>; the bound on the length needs \<open>0 \<le> n_results\<close>.
\<close>

theorem search_structured_ranked:
  "(0 \<le> n \<longrightarrow> length (search_by_symptoms_and_dosha data sy d dg n) \<le> nat n)
   \<and> (\<exists>idxs. map (structured_result data) idxs
                = map Some (search_by_symptoms_and_dosha data sy d dg n)
          \<and> (\<forall>ss. row_scores data sy d dg = Some ss \<longrightarrow> sorted_wrt (ranked_before ss) idxs))"
proof (cases "row_scores data sy d dg")
  case None
  then have e: "search_by_symptoms_and_dosha data sy d dg n = []"
    by (rule search_structured_raises)
  have "map (structured_result data) [] = map Some (search_by_symptoms_and_dosha data sy d dg n)
        \<and> (\<forall>ss. row_scores data sy d dg = Some ss \<longrightarrow> sorted_wrt (ranked_before ss) [])"
    using e None by simp
  then have "\<exists>idxs. map (structured_result data) idxs
                = map Some (search_by_symptoms_and_dosha data sy d dg n)
          \<and> (\<forall>ss. row_scores data sy d dg = Some ss \<longrightarrow> sorted_wrt (ranked_before ss) idxs)"
    by (rule exI)
  with e show ?thesis by simp
next
  case (Some ss)
  let ?c = "chosen_indices data ss n"
  have len: "length ss = length data" using Some by (rule row_scores_length)
  have u: "map (structured_result data) ?c = map Some (search_by_symptoms_and_dosha data sy d dg n)"
    using Some by (rule search_structured_unfold)
  have "length (map (structured_result data) ?c)
          = length (map Some (search_by_symptoms_and_dosha data sy d dg n))"
    by (simp only: u)
  then have l: "length (search_by_symptoms_and_dosha data sy d dg n) = length ?c" by simp
  have s: "sorted_wrt (ranked_before ss) ?c" using len by (rule chosen_indices_sorted)
  have "map (structured_result data) ?c = map Some (search_by_symptoms_and_dosha data sy d dg n)
        \<and> (\<forall>ss'. row_scores data sy d dg = Some ss' \<longrightarrow> sorted_wrt (ranked_before ss') ?c)"
    using u s Some by simp
  then have "\<exists>idxs. map (structured_result data) idxs
                = map Some (search_by_symptoms_and_dosha data sy d dg n)
          \<and> (\<forall>ss. row_scores data sy d dg = Some ss \<longrightarrow> sorted_wrt (ranked_before ss) idxs)"
    by (rule exI)
  moreover have "0 \<le> n \<longrightarrow> length (search_by_symptoms_and_dosha data sy d dg n) \<le> nat n"
    using chosen_indices_length [of n data ss] l by simp
  ultimately show ?thesis by (rule conjI [rotated])
qed

text \<open>
  Claim C3. When scoring raises nothing: if some row has a positive score, every result
  is a row of positive score; if every row scores 0, the results are the rows of
  \<open>self.data.head(n_results)\<close>, which for \<open>0 \<le> n_results\<close> are the first
  \<open>n_results\<close> rows of the corpus in their order.
\<close>

theorem fallback_only_without_match:
  assumes "row_scores data sy d dg = Some ss"
  shows "((\<exists>s\<in>set ss. 0 < s) \<longrightarrow>
            (\<exists>idxs. map (structured_result data) idxs
                       = map Some (search_by_symptoms_and_dosha data sy d dg n)
                 \<and> (\<forall>i\<in>set idxs. i < length ss \<and> 0 < ss ! i)))
       \<and> ((\<forall>s\<in>set ss. s = 0) \<longrightarrow>
            map (structured_result data) (head_index data n)
              = map Some (search_by_symptoms_and_dosha data sy d dg n))
       \<and> (0 \<le> n \<longrightarrow> head_index data n = [0..<min (nat n) (length data)])"
proof (intro conjI impI)
  let ?c = "chosen_indices data ss n"
  have len: "length ss = length data" using assms by (rule row_scores_length)
  have u: "map (structured_result data) ?c = map Some (search_by_symptoms_and_dosha data sy d dg n)"
    using assms by (rule search_structured_unfold)
  {
    assume pos: "\<exists>s\<in>set ss. 0 < s"
    have "\<forall>i\<in>set ?c. i < length ss \<and> 0 < ss ! i"
      using chosen_indices_positive [OF len pos] by blast
    with u have "map (structured_result data) ?c
                   = map Some (search_by_symptoms_and_dosha data sy d dg n)
                 \<and> (\<forall>i\<in>set ?c. i < length ss \<and> 0 < ss ! i)" by simp
    then show "\<exists>idxs. map (structured_result data) idxs
                       = map Some (search_by_symptoms_and_dosha data sy d dg n)
                 \<and> (\<forall>i\<in>set idxs. i < length ss \<and> 0 < ss ! i)"
      by (rule exI)
  }
  {
    assume "\<forall>s\<in>set ss. s = 0"
    then have "?c = head_index data n" by (rule chosen_indices_all_zero)
    with u show "map (structured_result data) (head_index data n)
              = map Some (search_by_symptoms_and_dosha data sy d dg n)" by simp
  }
  {
    assume "0 \<le> n"
    then show "head_index data n = [0..<min (nat n) (length data)]" by (rule head_index_nonneg)
  }
qed

lemma str_in_Nil: "str_in [] s"
  by (cases s) simp_all

lemma text_cell_score_empty:
  "text_cell_score [] v = (if cell_notna v then length (cell_str v) + 1 else 0)"
  by (simp add: text_cell_score_def str_in_Nil str_count_def str_lower_def)

lemma text_score_empty_pos:
  "0 < text_score [] r \<longleftrightarrow> (\<exists>v\<in>set (map snd r). cell_notna v)"
  by (induction r) (auto simp: text_score_def text_cell_score_empty)

lemma length_filter_scores:
  "length (filter (\<lambda>(score, idx). 0 < score) (zip (map f xs) [0..<length xs]))
     = length (filter (\<lambda>x. 0 < f x) xs)"
proof -
  let ?Z = "zip (map f xs) [0..<length xs]"
  have "length (filter (\<lambda>(score, idx). 0 < score) ?Z)
          = length (map fst (filter ((\<lambda>s. 0 < s) \<circ> fst) ?Z))"
    by (simp add: case_prod_unfold comp_def)
  also have "\<dots> = length (filter (\<lambda>s. 0 < s) (map fst ?Z))"
    by (simp only: filter_map)
  also have "map fst ?Z = map f xs" by simp
  also have "length (filter (\<lambda>s. 0 < s) (map f xs)) = length (filter (\<lambda>x. 0 < f x) xs)"
    by (simp add: filter_map comp_def)
  finally show ?thesis .
qed

lemma text_scores_member:
  assumes "a \<in> set (text_scores data q)"
  shows "snd a < length data"
proof -
  from assms have "a \<in> set (zip (map (text_score (str_lower q)) data) [0..<length data])"
    by (simp add: text_scores_def)
  then have "snd a \<in> set [0..<length data]" by (metis in_set_zipE prod.collapse)
  then show ?thesis by simp
qed

lemma search_text_unfold:
  "map (text_result data) (map snd (slice_to (sort_scores (text_scores data q)) n))
     = map Some (search_by_text data q n)"
proof -
  let ?c = "map snd (slice_to (sort_scores (text_scores data q)) n)"
  have "\<forall>i\<in>set ?c. text_result data i \<noteq> None"
  proof
    fix i assume "i \<in> set ?c"
    then obtain a where a: "a \<in> set (slice_to (sort_scores (text_scores data q)) n)"
      and i: "i = snd a" by auto
    from a have "a \<in> set (sort_scores (text_scores data q))" by (rule slice_member)
    then have "a \<in> set (text_scores data q)" by (simp only: set_sort_scores)
    then have "snd a < length data" by (rule text_scores_member)
    with i show "text_result data i \<noteq> None" by (simp add: text_result_Some)
  qed
  then obtain rs where rs: "those (map (text_result data) ?c) = Some rs"
      and eq: "map (text_result data) ?c = map Some rs"
    using those_all_Some [of ?c "text_result data"] by blast
  have "search_by_text data q n = rs"
    using rs by (simp add: search_by_text_def Let_def)
  with eq show ?thesis by simp
qed

lemma length_search_text:
  assumes "0 \<le> n"
  shows "length (search_by_text data q n) = min (nat n) (length (text_scores data q))"
proof -
  have "length (map Some (search_by_text data q n))
          = length (map (text_result data) (map snd (slice_to (sort_scores (text_scores data q)) n)))"
    by (simp only: search_text_unfold)
  then have "length (search_by_text data q n)
               = length (slice_to (sort_scores (text_scores data q)) n)" by simp
  also have "\<dots> = min (nat n) (length (sort_scores (text_scores data q)))"
    using assms by (rule length_slice_to_nonneg)
  finally show ?thesis by (simp only: length_sort_scores)
qed

text \<open>
  Claim C10. For the empty query, a cell that is not NaN contributes the length of its
  text plus one, so a row with such a cell has a positive score, and for a positive
  \<open>n_results\<close> the text search returns as many results as there are such rows, up to
  \<open>n_results\<close>.
\<close>

theorem empty_query_matches_all:
  "(cell_notna v \<longrightarrow> text_cell_score [] v = length (cell_str v) + 1)
   \<and> ((\<exists>v\<in>set (map snd r). cell_notna v) \<longrightarrow> 0 < text_score [] r)
   \<and> (0 < n \<longrightarrow> length (search_by_text data [] n)
          = min (nat n) (length (filter (\<lambda>r. \<exists>v\<in>set (map snd r). cell_notna v) data)))"
proof (intro conjI impI)
  assume "cell_notna v"
  then show "text_cell_score [] v = length (cell_str v) + 1"
    by (simp add: text_cell_score_empty)
next
  assume "\<exists>v\<in>set (map snd r). cell_notna v"
  then show "0 < text_score [] r" by (simp only: text_score_empty_pos)
next
  assume "0 < n"
  then have "0 \<le> n" by simp
  then have "length (search_by_text data [] n) = min (nat n) (length (text_scores data []))"
    by (rule length_search_text)
  also have "length (text_scores data [])
               = length (filter (\<lambda>r. 0 < text_score [] r) data)"
    unfolding text_scores_def by (simp only: str_lower_def list.map length_filter_scores)
  also have "(\<lambda>r. 0 < text_score [] r) = (\<lambda>r. \<exists>v\<in>set (map snd r). cell_notna v)"
    by (simp only: text_score_empty_pos)
  finally show "length (search_by_text data [] n)
          = min (nat n) (length (filter (\<lambda>r. \<exists>v\<in>set (map snd r). cell_notna v) data))" .
qed

text \<open>
  Claim C9, for \<open>n_results = 0\<close>: both searches return the empty list.
\<close>

theorem search_zero_empty:
  "search_by_symptoms_and_dosha data sy d dg 0 = [] \<and> search_by_text data q 0 = []"
proof
  have "top_indices xs 0 = []" for xs
    by (simp add: top_indices_def slice_to_def)
  moreover have "head_index data 0 = []"
    by (simp add: head_index_def slice_to_def)
  ultimately show "search_by_symptoms_and_dosha data sy d dg 0 = []"
    by (simp add: search_by_symptoms_and_dosha_def Let_def split: option.split)
  show "search_by_text data q 0 = []"
    by (simp add: search_by_text_def slice_to_def)
qed

lemmas score_defs =
  row_scores_def score_row_def constitution_score_def disease_score_def symptoms_score_def
  context_score_def row_get_def row_item_def row_get_default_def str_lower_def lower_char_def

lemmas result_defs =
  structured_result_def text_result_def iloc_def format_case_text_def format_part_def
  structured_metadata_def text_metadata_def row_get_def row_item_def row_get_default_def
  str_nat.simps digit_char_def

lemma reflux_scores:
  "row_scores reflux_corpus [''heartburn''] ''Pitta'' ''Acid Reflux'' = Some [21]"
  by (simp add: reflux_corpus_def reflux_record_def score_defs)

lemma reflux_result: "structured_result reflux_corpus 0 = Some reflux_case"
  by (simp add: reflux_corpus_def reflux_record_def reflux_case_def result_defs)

lemma slice_to_single: "0 < n \<Longrightarrow> slice_to [x] n = [x]"
  by (simp add: slice_to_def take_Cons')

text \<open>
  Claim C6. On the corpus of the one record with constitution Pitta, disease Acid Reflux
  and symptoms "heartburn, bloating", the query with symptom heartburn, constitution
  Pitta and diagnosis Acid Reflux scores 10 for the constitution, 8 for the diagnosis,
  3 for the symptom and nothing for herbs and formulation, 21 in all, and the search
  returns that record as its only result, for every positive number of results asked.
\<close>

theorem reflux_scenario:
  "0 < n \<Longrightarrow>
     constitution_score (str_lower ''Pitta'') reflux_record = Some 10
     \<and> disease_score (str_lower ''Acid Reflux'') reflux_record = Some 8
     \<and> symptoms_score (map str_lower [''heartburn'']) reflux_record = 3
     \<and> context_score (map str_lower [''heartburn'']) reflux_record = 0
     \<and> row_scores reflux_corpus [''heartburn''] ''Pitta'' ''Acid Reflux'' = Some [21]
     \<and> search_by_symptoms_and_dosha reflux_corpus [''heartburn''] ''Pitta'' ''Acid Reflux'' n
         = [reflux_case]"
proof (intro conjI)
  assume n: "0 < n"
  show "constitution_score (str_lower ''Pitta'') reflux_record = Some 10"
    by (simp add: reflux_record_def score_defs)
  show "disease_score (str_lower ''Acid Reflux'') reflux_record = Some 8"
    by (simp add: reflux_record_def score_defs)
  show "symptoms_score (map str_lower [''heartburn'']) reflux_record = 3"
    by (simp add: reflux_record_def score_defs)
  show "context_score (map str_lower [''heartburn'']) reflux_record = 0"
    by (simp add: reflux_record_def score_defs)
  show "row_scores reflux_corpus [''heartburn''] ''Pitta'' ''Acid Reflux'' = Some [21]"
    by (rule reflux_scores)
  have "top_indices [(21, 0)] n = [0]"
    using n by (simp add: top_indices_def sort_scores_def slice_to_single)
  then show "search_by_symptoms_and_dosha reflux_corpus [''heartburn''] ''Pitta'' ''Acid Reflux'' n
         = [reflux_case]"
    by (simp add: search_by_symptoms_and_dosha_def reflux_scores reflux_result)
qed

theorem reflux_scenario_witness:
  "(0::int) < 5
   \<and> row_scores reflux_corpus [''heartburn''] ''Pitta'' ''Acid Reflux'' = Some [21]
   \<and> search_by_symptoms_and_dosha reflux_corpus [''heartburn''] ''Pitta'' ''Acid Reflux'' 5
       = [reflux_case]"
  using reflux_scenario [of 5] by simp

lemmas search_defs =
  search_by_symptoms_and_dosha_def search_by_text_def top_indices_def sort_scores_def
  slice_to_def head_index_def text_scores_def text_score_def text_cell_score_def str_count_def
  Let_def

lemma mixed_scores:
  "row_scores mixed_corpus [''heartburn''] ''Pitta'' ''Acid Reflux'' = Some [0, 21, 21]"
  by (simp add: mixed_corpus_def reflux_record_def score_defs)

lemma mixed_scores_zero: "row_scores mixed_corpus [] ''Kapha'' [] = Some [0, 0, 0]"
  by (simp add: mixed_corpus_def reflux_record_def score_defs)

lemma mixed_search_negative:
  "length (search_by_symptoms_and_dosha mixed_corpus [''heartburn''] ''Pitta'' ''Acid Reflux'' (- 1)) = 2"
  by (simp add: search_defs mixed_scores)
     (simp add: mixed_corpus_def reflux_record_def result_defs)

text \<open>
  Claim C2 as stated, for every \<open>n_results\<close>, fails at \<open>n_results = -1\<close>: the slice
  \<open>scores[:-1]\<close> drops the last entry only, and two results come back.
\<close>

theorem negative_top_n_counterexample:
  "\<not> int (length (search_by_symptoms_and_dosha mixed_corpus [''heartburn''] ''Pitta''
                     ''Acid Reflux'' (- 1))) \<le> - 1"
  by (simp add: mixed_search_negative)

theorem search_structured_ranked_witness:
  "(0::int) \<le> 5
   \<and> length (search_by_symptoms_and_dosha mixed_corpus [''heartburn''] ''Pitta'' ''Acid Reflux'' 5)
       \<le> nat 5
   \<and> (\<exists>idxs. map (structured_result mixed_corpus) idxs
                = map Some (search_by_symptoms_and_dosha mixed_corpus [''heartburn''] ''Pitta''
                              ''Acid Reflux'' 5)
          \<and> sorted_wrt (ranked_before [0, 21, 21]) idxs)"
  using search_structured_ranked [of 5 mixed_corpus "[''heartburn'']" "''Pitta''" "''Acid Reflux''"]
    mixed_scores
  by simp

theorem fallback_only_without_match_witness:
  "row_scores mixed_corpus [''heartburn''] ''Pitta'' ''Acid Reflux'' = Some [0, 21, 21]
   \<and> (\<exists>s\<in>set [0, 21, 21::nat]. 0 < s)
   \<and> (\<exists>idxs. map (structured_result mixed_corpus) idxs
                = map Some (search_by_symptoms_and_dosha mixed_corpus [''heartburn''] ''Pitta''
                              ''Acid Reflux'' 5)
          \<and> (\<forall>i\<in>set idxs. i < length [0, 21, 21::nat] \<and> 0 < [0, 21, 21::nat] ! i))
   \<and> row_scores mixed_corpus [] ''Kapha'' [] = Some [0, 0, 0]
   \<and> (\<forall>s\<in>set [0, 0, 0::nat]. s = 0)
   \<and> map (structured_result mixed_corpus) (head_index mixed_corpus 2)
       = map Some (search_by_symptoms_and_dosha mixed_corpus [] ''Kapha'' [] 2)
   \<and> (0::int) \<le> 2
   \<and> head_index mixed_corpus 2 = [0..<min (nat 2) (length mixed_corpus)]"
proof (intro conjI)
  show p: "\<exists>s\<in>set [0, 21, 21::nat]. 0 < s" by simp
  show z: "\<forall>s\<in>set [0, 0, 0::nat]. s = 0" by simp
  show n: "(0::int) \<le> 2" by simp
  show "row_scores mixed_corpus [''heartburn''] ''Pitta'' ''Acid Reflux'' = Some [0, 21, 21]"
    by (rule mixed_scores)
  show "row_scores mixed_corpus [] ''Kapha'' [] = Some [0, 0, 0]"
    by (rule mixed_scores_zero)
  show "\<exists>idxs. map (structured_result mixed_corpus) idxs
                = map Some (search_by_symptoms_and_dosha mixed_corpus [''heartburn''] ''Pitta''
                              ''Acid Reflux'' 5)
          \<and> (\<forall>i\<in>set idxs. i < length [0, 21, 21::nat] \<and> 0 < [0, 21, 21::nat] ! i)"
    by (rule fallback_only_without_match [OF mixed_scores, of 5, THEN conjunct1, THEN mp, OF p])
  show "map (structured_result mixed_corpus) (head_index mixed_corpus 2)
       = map Some (search_by_symptoms_and_dosha mixed_corpus [] ''Kapha'' [] 2)"
    by (rule fallback_only_without_match
          [OF mixed_scores_zero, of 2, THEN conjunct2, THEN conjunct1, THEN mp, OF z])
  show "head_index mixed_corpus 2 = [0..<min (nat 2) (length mixed_corpus)]"
    by (rule fallback_only_without_match
          [OF mixed_scores_zero, of 2, THEN conjunct2, THEN conjunct2, THEN mp, OF n])
qed

text \<open>
  Claim C9 as stated, for every \<open>n_results \<le> 0\<close>, fails at \<open>n_results = -1\<close>: both
  searches slice with \<open>[:-1]\<close> and return all but the last ranked entry.
\<close>

theorem nonpositive_top_n_counterexample:
  "(- 1::int) \<le> 0
   \<and> search_by_symptoms_and_dosha mixed_corpus [''heartburn''] ''Pitta'' ''Acid Reflux'' (- 1) \<noteq> []
   \<and> search_by_text mixed_corpus ''pitta'' (- 1) \<noteq> []"
proof (intro conjI)
  show "(- 1::int) \<le> 0" by simp
  have "length (search_by_symptoms_and_dosha mixed_corpus [''heartburn''] ''Pitta'' ''Acid Reflux'' (- 1)) \<noteq> 0"
    by (simp add: mixed_search_negative)
  then show "search_by_symptoms_and_dosha mixed_corpus [''heartburn''] ''Pitta'' ''Acid Reflux'' (- 1) \<noteq> []"
    by simp
  have "text_scores mixed_corpus ''pitta'' = [(1, 1), (1, 2)]"
    by (simp add: text_scores_def text_score_def text_cell_score_def str_count_def
          mixed_corpus_def reflux_record_def str_lower_def lower_char_def)
  then have "length (search_by_text mixed_corpus ''pitta'' (- 1)) = 1"
    by (simp add: search_by_text_def sort_scores_def slice_to_def)
       (simp add: mixed_corpus_def reflux_record_def result_defs)
  then show "search_by_text mixed_corpus ''pitta'' (- 1) \<noteq> []" by auto
qed

theorem empty_query_matches_all_witness:
  "cell_notna (Str ''ab'') \<and> text_cell_score [] (Str ''ab'') = 3
   \<and> (\<exists>v\<in>set (map snd [(''Disease'', Str ''ab'')]). cell_notna v)
   \<and> 0 < text_score [] [(''Disease'', Str ''ab'')]
   \<and> (0::int) < 1
   \<and> length (search_by_text blank_corpus [] 1) = 1"
  using empty_query_matches_all [of "Str ''ab''" "[(''Disease'', Str ''ab'')]" 1 blank_corpus]
  by (simp add: blank_corpus_def)

text \<open>
  Claim C1 does not hold of the code. \<open>row.get(k, 'N/A')\<close> takes the default for a
  missing column only: a NaN cell reaches the metadata as NaN. The metadata of the text
  search has six keys and no \<open>lifestyle_recommendations\<close>.
\<close>

theorem metadata_nan_passthrough:
  "search_by_symptoms_and_dosha cough_corpus [''cough''] ''Vata'' [] 5
     = [\<lparr>case_id = ''0'', case_text = ''Symptoms: cough'',
          case_metadata =
            [(''disease'', NaN), (''symptoms'', Str ''cough''), (''constitution'', Str ''N/A''),
             (''ayurvedic_herbs'', Str ''N/A''), (''formulation'', Str ''N/A''),
             (''diet_recommendations'', Str ''N/A''),
             (''lifestyle_recommendations'', Str ''N/A'')]\<rparr>]
   \<and> search_by_text cough_corpus ''cough'' 5
     = [\<lparr>case_id = ''0'', case_text = ''Symptoms: cough'',
          case_metadata =
            [(''disease'', NaN), (''symptoms'', Str ''cough''), (''constitution'', Str ''N/A''),
             (''ayurvedic_herbs'', Str ''N/A''), (''formulation'', Str ''N/A''),
             (''diet_recommendations'', Str ''N/A'')]\<rparr>]"
proof
  have "row_scores cough_corpus [''cough''] ''Vata'' [] = Some [3]"
    by (simp add: cough_corpus_def score_defs)
  then show "search_by_symptoms_and_dosha cough_corpus [''cough''] ''Vata'' [] 5
     = [\<lparr>case_id = ''0'', case_text = ''Symptoms: cough'',
          case_metadata =
            [(''disease'', NaN), (''symptoms'', Str ''cough''), (''constitution'', Str ''N/A''),
             (''ayurvedic_herbs'', Str ''N/A''), (''formulation'', Str ''N/A''),
             (''diet_recommendations'', Str ''N/A''),
             (''lifestyle_recommendations'', Str ''N/A'')]\<rparr>]"
    by (simp add: search_defs) (simp add: cough_corpus_def result_defs)
  have "text_scores cough_corpus ''cough'' = [(1, 0)]"
    by (simp add: text_scores_def text_score_def text_cell_score_def str_count_def
          cough_corpus_def str_lower_def lower_char_def)
  then show "search_by_text cough_corpus ''cough'' 5
     = [\<lparr>case_id = ''0'', case_text = ''Symptoms: cough'',
          case_metadata =
            [(''disease'', NaN), (''symptoms'', Str ''cough''), (''constitution'', Str ''N/A''),
             (''ayurvedic_herbs'', Str ''N/A''), (''formulation'', Str ''N/A''),
             (''diet_recommendations'', Str ''N/A'')]\<rparr>]"
    by (simp add: search_by_text_def sort_scores_def slice_to_def)
       (simp add: cough_corpus_def result_defs)
qed

end
